theory Spec2Isabelle
  imports Main
begin

section \<open>Python strings\<close>

text \<open>
  A Python \<open>str\<close> is a sequence of Unicode code points; it is modelled as the list of
  these code points. \<open>ascii\<close> reads an ASCII literal as such a list, so that
  \<open>ascii ''5''\<close> is the Python string \<open>"5"\<close>.
\<close>

type_synonym pystr = "nat list"

definition ascii :: "string \<Rightarrow> pystr" where
  "ascii s = map of_char s"

text \<open>\<open>s.startswith(p)\<close>.\<close>

definition startswith :: "pystr \<Rightarrow> pystr \<Rightarrow> bool" where
  "startswith s p = (take (length p) s = p)"

text \<open>\<open>str(i)\<close> for an integer: its decimal digits, with a minus sign when negative.\<close>

fun digits_of :: "nat \<Rightarrow> pystr" where
  "digits_of n = (if n < 10 then [48 + n] else digits_of (n div 10) @ [48 + n mod 10])"

declare digits_of.simps [simp del]

definition str_int :: "int \<Rightarrow> pystr" where
  "str_int i = (if i < 0 then 45 # digits_of (nat (- i)) else digits_of (nat i))"

text \<open>
  The characters \<open>str.strip()\<close> removes: the code points for which \<open>str.isspace()\<close>
  holds (U+0009..U+000D, U+001C..U+0020, U+0085, U+00A0, U+1680, U+2000..U+200A, U+2028,
  U+2029, U+202F, U+205F, U+3000).
\<close>

definition isspace :: "nat \<Rightarrow> bool" where
  "isspace c =
     ((0x09 \<le> c \<and> c \<le> 0x0D) \<or> (0x1C \<le> c \<and> c \<le> 0x20) \<or> c = 0x85 \<or> c = 0xA0
      \<or> c = 0x1680 \<or> (0x2000 \<le> c \<and> c \<le> 0x200A) \<or> c = 0x2028 \<or> c = 0x2029
      \<or> c = 0x202F \<or> c = 0x205F \<or> c = 0x3000)"

definition strip :: "pystr \<Rightarrow> pystr" where
  "strip s = rev (dropWhile isspace (rev (dropWhile isspace s)))"

text \<open>
  The characters the regular expression class \<open>\d\<close> matches in a \<open>str\<close> pattern: the
  Unicode decimal digits (general category Nd, Unicode 14.0), which come in blocks of
  ten consecutive code points. \<open>decimal_blocks\<close> lists the code point of the digit
  zero of every block.
\<close>

definition decimal_blocks :: "nat list" where
  "decimal_blocks =
     [0x30, 0x660, 0x6F0, 0x7C0, 0x966, 0x9E6, 0xA66, 0xAE6, 0xB66, 0xBE6, 0xC66, 0xCE6,
      0xD66, 0xDE6, 0xE50, 0xED0, 0xF20, 0x1040, 0x1090, 0x17E0, 0x1810, 0x1946, 0x19D0,
      0x1A80, 0x1A90, 0x1B50, 0x1BB0, 0x1C40, 0x1C50, 0xA620, 0xA8D0, 0xA900, 0xA9D0,
      0xA9F0, 0xAA50, 0xABF0, 0xFF10, 0x104A0, 0x10D30, 0x11066, 0x110F0, 0x11136,
      0x111D0, 0x112F0, 0x11450, 0x114D0, 0x11650, 0x116C0, 0x11730, 0x118E0, 0x11950,
      0x11C50, 0x11D50, 0x11DA0, 0x16A60, 0x16AC0, 0x16B50, 0x1D7CE, 0x1D7D8, 0x1D7E2,
      0x1D7EC, 0x1D7F6, 0x1E140, 0x1E2F0, 0x1E950, 0x1FBF0]"

definition isdecimal :: "nat \<Rightarrow> bool" where
  "isdecimal c = list_ex (\<lambda>b. b \<le> c \<and> c < b + 10) decimal_blocks"

section \<open>Pool types and item classification\<close>

text \<open>
  \<open>GACHA_TYPE_MAP\<close>: the dictionary from the store's QueryType to the two codes of the
  interchange format, the pair \<open>(uigf_gacha_type, gacha_type)\<close>. \<open>GACHA_TYPE_MAP q\<close>
  is \<open>GACHA_TYPE_MAP.get(q)\<close>.
\<close>

definition GACHA_TYPE_MAP :: "int \<rightharpoonup> pystr \<times> pystr" where
  "GACHA_TYPE_MAP =
     [100 \<mapsto> (ascii ''100'', ascii ''100''),
      200 \<mapsto> (ascii ''200'', ascii ''200''),
      301 \<mapsto> (ascii ''301'', ascii ''301''),
      302 \<mapsto> (ascii ''302'', ascii ''302''),
      400 \<mapsto> (ascii ''301'', ascii ''400''),
      500 \<mapsto> (ascii ''500'', ascii ''500'')]"

text \<open>\<open>get_rank_type\<close>: the chain of range tests, in the order of the source.\<close>

definition get_rank_type :: "int \<Rightarrow> pystr" where
  "get_rank_type item_id =
     (if 10000 \<le> item_id \<and> item_id \<le> 19999 then ascii ''5''
      else if 11000 \<le> item_id \<and> item_id \<le> 16999 then ascii ''4''
      else if 14000 \<le> item_id \<and> item_id \<le> 14999 then ascii ''4''
      else if 15000 \<le> item_id \<and> item_id \<le> 15999 then ascii ''3''
      else ascii ''3'')"

text \<open>
  The two item categories of the source are the two-character strings U+89D2 U+8272
  (character) and U+6B66 U+5668 (weapon).
\<close>

definition CHARACTER :: pystr where
  "CHARACTER = [0x89D2, 0x8272]"

definition WEAPON :: pystr where
  "WEAPON = [0x6B66, 0x5668]"

record item_info =
  name :: pystr
  item_type :: pystr
  rank_type :: pystr

definition get_item_info :: "int \<Rightarrow> item_info" where
  "get_item_info item_id =
     (let rank = get_rank_type item_id in
      if 10000 \<le> item_id \<and> item_id \<le> 19999
      then \<lparr>name = CHARACTER @ ascii ''_'' @ str_int item_id,
            item_type = CHARACTER,
            rank_type = rank\<rparr>
      else \<lparr>name = WEAPON @ ascii ''_'' @ str_int item_id,
            item_type = WEAPON,
            rank_type = rank\<rparr>)"

section \<open>Timestamps\<close>

text \<open>
  \<open>utc_offset t\<close>: the whole of \<open>t\<close> matches \<open>[+-]\d{2}:\d{2}\<close>. \<open>at_end t\<close>: the
  anchor \<open>$\<close> matches in front of the rest \<open>t\<close> of the string, that is at the end of the
  string or in front of a line feed that ends it.
\<close>

definition utc_offset :: "pystr \<Rightarrow> bool" where
  "utc_offset t =
     (length t = 6 \<and> (t ! 0 = 43 \<or> t ! 0 = 45) \<and> isdecimal (t ! 1) \<and> isdecimal (t ! 2)
      \<and> t ! 3 = 58 \<and> isdecimal (t ! 4) \<and> isdecimal (t ! 5))"

definition at_end :: "pystr \<Rightarrow> bool" where
  "at_end t = (t = [] \<or> t = [10])"

text \<open>
  \<open>re.sub(r'[+-]\d{2}:\d{2}$', '', s)\<close>: the string is scanned from the left; where
  the pattern matches, the match is left out and the scan goes on behind it, elsewhere
  the character is kept.
\<close>

function re_sub_offset :: "pystr \<Rightarrow> pystr" where
  "re_sub_offset [] = []"
| "re_sub_offset (c # cs) =
     (if utc_offset (take 6 (c # cs)) \<and> at_end (drop 6 (c # cs))
      then re_sub_offset (drop 6 (c # cs))
      else c # re_sub_offset cs)"
  by pat_completeness auto
termination
  by (relation "measure length") auto

definition parse_timestamp :: "pystr \<Rightarrow> pystr" where
  "parse_timestamp time_str =
     (let time_str = filter (\<lambda>c. c \<noteq> 10) time_str;
          time_str = re_sub_offset time_str
      in strip time_str)"

text \<open>\<open>get_timezone_from_uid\<close>, for an identity key that is a string.\<close>

definition get_timezone_from_uid :: "pystr \<Rightarrow> int" where
  "get_timezone_from_uid uid =
     (let uid_str = uid in
      if startswith uid_str (ascii ''6'') then - 5
      else if startswith uid_str (ascii ''7'') then 1
      else 8)"

section \<open>The store\<close>

text \<open>
  A row of the table \<open>gacha_items\<close>, with the columns the export selects;
  \<open>Id'\<close> is the column \<open>Id\<close>, the display record id. The identity key
  \<open>ArchiveId\<close> and the timestamp \<open>Time\<close> are text, the other selected columns
  integers.
\<close>

record row =
  InnerId :: pystr
  ArchiveId :: pystr
  GachaType :: int
  Id' :: int
  ItemId :: int
  QueryType :: int
  Time :: pystr

text \<open>
  What \<open>sqlite3\<close> finds at \<open>db_path\<close>: a file it cannot open (\<open>connect\<close> raises),
  a database in which the queries fail (no table \<open>gacha_items\<close>, or not a database:
  \<open>execute\<close> raises), or the table, its rows in the order the engine scans them.
\<close>

datatype database = Cannot_open | Query_fails | Table "row list"

text \<open>\<open>SELECT DISTINCT ArchiveId FROM gacha_items LIMIT 1\<close>, then \<open>fetchone()\<close>.\<close>

definition fetch_first_archive :: "row list \<Rightarrow> pystr option" where
  "fetch_first_archive tbl = (case tbl of [] \<Rightarrow> None | r # _ \<Rightarrow> Some (ArchiveId r))"

text \<open>\<open>SELECT ... WHERE ArchiveId = ? ORDER BY Id ASC\<close>, then \<open>fetchall()\<close>.\<close>

definition fetch_rows :: "row list \<Rightarrow> pystr \<Rightarrow> row list" where
  "fetch_rows tbl uid = sort_key Id' (filter (\<lambda>r. ArchiveId r = uid) tbl)"

section \<open>The export document\<close>

text \<open>
  A record of the output list: the three fields taken from \<open>get_item_info\<close> and the
  six others; \<open>id'\<close> is the key \<open>id\<close>.
\<close>

record gacha_record = item_info +
  uigf_gacha_type :: pystr
  gacha_type :: pystr
  item_id :: pystr
  count :: pystr
  time :: pystr
  id' :: pystr

record uigf_info =
  uid :: pystr
  lang :: pystr
  export_timestamp :: int
  export_time :: pystr
  export_app :: pystr
  export_app_version :: pystr
  uigf_version :: pystr
  region_time_zone :: int

record uigf_data =
  info :: uigf_info
  list :: "gacha_record list"

section \<open>Effects\<close>

text \<open>
  Every \<open>print\<close> of the source is one message, which carries the values the source
  formats into the line:
  \<^item> \<open>Error_no_records\<close>: the store holds no record (line 104);
  \<^item> \<open>Error_no_records_for uid\<close>: no record for the key (line 120);
  \<^item> \<open>Exporting uid n\<close>: the export of \<open>n\<close> rows starts (line 123);
  \<^item> \<open>Warning_unknown_type query_type record_id\<close>: a skipped row (line 134);
  \<^item> \<open>Export_done\<close>, \<open>Summary_uid\<close>, \<open>Summary_count\<close>, \<open>Summary_time_zone\<close>,
    \<open>Summary_path\<close>: the summary (lines 184 to 188);
  \<^item> \<open>Export_failed e\<close> and \<open>Traceback e\<close>: the handler of the entry point (lines 204
    to 206).
\<close>

datatype exn = OperationalError | OSError

datatype message =
    Error_no_records
  | Error_no_records_for pystr
  | Exporting pystr nat
  | Warning_unknown_type int int
  | Export_done
  | Summary_uid pystr
  | Summary_count nat
  | Summary_time_zone int
  | Summary_path pystr
  | Export_failed exn
  | Traceback exn

text \<open>A call returns a value or raises.\<close>

datatype 'a outcome = Returned 'a | Raised exn

text \<open>
  What a file holds: some text, the JSON serialisation of a document, or what is left
  when the serialisation breaks off after the file has been truncated.
\<close>

datatype content = Text pystr | Json uigf_data | Broken_off

text \<open>
  What the output path does when it is written: nothing unusual, \<open>open\<close> raises, or
  a write inside the \<open>with\<close> block raises.
\<close>

datatype fault = No_fault | Open_fails | Write_fails

datatype handle = Unopened | Opened | Released

text \<open>
  The state the export acts on: the files by path, the lines printed so far, and the
  state of the store connection and of the output file handle.
\<close>

record world =
  fs :: "pystr \<rightharpoonup> content"
  stdout :: "message list"
  conn :: handle
  fh :: handle

text \<open>The two readings of the clock, \<open>export_timestamp\<close> and \<open>export_time\<close>.\<close>

record clock =
  epoch_seconds :: int
  formatted :: pystr

section \<open>The export\<close>

text \<open>
  The record built for a row whose pool type resolved to \<open>gacha_info\<close> (lines 137 to
  154).
\<close>

definition make_record :: "pystr \<times> pystr \<Rightarrow> row \<Rightarrow> gacha_record" where
  "make_record gacha_info r =
     (let item_info = get_item_info (ItemId r);
          formatted_time = parse_timestamp (Time r)
      in \<lparr>name = name item_info,
          item_type = item_type item_info,
          rank_type = rank_type item_info,
          uigf_gacha_type = fst gacha_info,
          gacha_type = snd gacha_info,
          item_id = str_int (ItemId r),
          count = ascii ''1'',
          time = formatted_time,
          id' = str_int (Id' r)\<rparr>)"

text \<open>
  The loop over the rows (lines 128 to 156): \<open>gacha_list\<close> is the list built so far,
  \<open>out\<close> the lines printed so far. A row whose query type is not in the dictionary
  is skipped with a warning.
\<close>

fun convert_rows :: "row list \<Rightarrow> gacha_record list \<Rightarrow> message list
    \<Rightarrow> gacha_record list \<times> message list" where
  "convert_rows [] gacha_list out = (gacha_list, out)"
| "convert_rows (r # rows) gacha_list out =
     (case GACHA_TYPE_MAP (QueryType r) of
        None \<Rightarrow>
          convert_rows rows gacha_list (out @ [Warning_unknown_type (QueryType r) (Id' r)])
      | Some gacha_info \<Rightarrow>
          convert_rows rows (gacha_list @ [make_record gacha_info r]) out)"

text \<open>
  \<open>export_gacha_data\<close>: \<open>db\<close> is what lies at \<open>db_path\<close>, \<open>fault\<close> how the output
  path behaves, \<open>clk\<close> the clock. The result is what the call returns (\<open>None\<close> or
  the document) or raises, and the state it leaves. The local variables \<open>uid\<close>,
  \<open>export_timestamp\<close>, \<open>export_time\<close> and \<open>region_time_zone\<close> of the source are
  primed, since the plain names are the fields of the document.
\<close>

definition export_gacha_data :: "database \<Rightarrow> fault \<Rightarrow> clock \<Rightarrow> pystr \<Rightarrow> pystr option
    \<Rightarrow> world \<Rightarrow> uigf_data option outcome \<times> world" where
  "export_gacha_data db fault clk output_path uid_arg w =
     (case db of
        Cannot_open \<Rightarrow> (Raised OperationalError, w)
      | Query_fails \<Rightarrow> (Raised OperationalError, w\<lparr>conn := Opened\<rparr>)
      | Table tbl \<Rightarrow>
          (case (case uid_arg of None \<Rightarrow> fetch_first_archive tbl | Some u \<Rightarrow> Some u) of
             None \<Rightarrow>
               (Returned None,
                w\<lparr>stdout := stdout w @ [Error_no_records], conn := Released\<rparr>)
           | Some uid' \<Rightarrow>
               (let rows = fetch_rows tbl uid';
                    w = w\<lparr>conn := Released\<rparr>
                in if rows = []
                   then (Returned None,
                         w\<lparr>stdout := stdout w @ [Error_no_records_for uid']\<rparr>)
                   else
                     (let (gacha_list, out) =
                            convert_rows rows [] (stdout w @ [Exporting uid' (length rows)]);
                          w = w\<lparr>stdout := out\<rparr>;
                          export_timestamp' = epoch_seconds clk;
                          export_time' = formatted clk;
                          region_time_zone' = get_timezone_from_uid uid';
                          uigf_data =
                            \<lparr>info = \<lparr>uid = uid',
                                      lang = ascii ''zh-cn'',
                                      export_timestamp = export_timestamp',
                                      export_time = export_time',
                                      export_app = ascii ''HutaoSave Exporter'',
                                      export_app_version = ascii ''1.0.0'',
                                      uigf_version = ascii ''v3.0'',
                                      region_time_zone = region_time_zone'\<rparr>,
                             list = gacha_list\<rparr>
                      in case fault of
                           Open_fails \<Rightarrow> (Raised OSError, w)
                         | Write_fails \<Rightarrow>
                             (Raised OSError,
                              w\<lparr>fs := (fs w)(output_path \<mapsto> Broken_off), fh := Released\<rparr>)
                         | No_fault \<Rightarrow>
                             (Returned (Some uigf_data),
                              w\<lparr>fs := (fs w)(output_path \<mapsto> Json uigf_data),
                                fh := Released,
                                stdout := stdout w @
                                  [Export_done, Summary_uid uid',
                                   Summary_count (length gacha_list),
                                   Summary_time_zone region_time_zone',
                                   Summary_path output_path]\<rparr>)))))"

text \<open>
  The entry point (lines 193 to 206): the export of the store at the fixed path, with no
  identity key; an exception is caught and reported. In both cases the script then runs
  to its end, and the process ends with exit status 0, the first component.
\<close>

definition output_path :: pystr where
  "output_path =
     ascii ''c:'' @ [92] @ ascii ''Users'' @ [92] @ ascii ''azhegod'' @ [92] @ ascii ''Desktop''
     @ [92] @ ascii ''hutaoSave'' @ [92] @ ascii ''gacha_export_uigf_v3.json''"

definition main :: "database \<Rightarrow> fault \<Rightarrow> clock \<Rightarrow> world \<Rightarrow> nat \<times> world" where
  "main db fault clk w =
     (case export_gacha_data db fault clk output_path None w of
        (Raised e, w) \<Rightarrow> (0, w\<lparr>stdout := stdout w @ [Export_failed e, Traceback e]\<rparr>)
      | (Returned r, w) \<Rightarrow> (0, w))"

section \<open>Clean timestamps and example inputs\<close>

text \<open>
  The inputs that C4 calls already clean: the strings of the form
  \<open>YYYY-MM-DD HH:MM:SS\<close>, with the ASCII digits \<open>0\<close> to \<open>9\<close>.
\<close>

definition ascii_digit :: "nat \<Rightarrow> bool" where
  "ascii_digit c = (48 \<le> c \<and> c \<le> 57)"

fun clean_timestamp :: "pystr \<Rightarrow> bool" where
  "clean_timestamp [y1, y2, y3, y4, h1, m1, m2, h2, d1, d2, sp, hh1, hh2, c1, mi1, mi2, c2, s1, s2] =
     (ascii_digit y1 \<and> ascii_digit y2 \<and> ascii_digit y3 \<and> ascii_digit y4 \<and> h1 = 45
      \<and> ascii_digit m1 \<and> ascii_digit m2 \<and> h2 = 45 \<and> ascii_digit d1 \<and> ascii_digit d2
      \<and> sp = 32 \<and> ascii_digit hh1 \<and> ascii_digit hh2 \<and> c1 = 58 \<and> ascii_digit mi1
      \<and> ascii_digit mi2 \<and> c2 = 58 \<and> ascii_digit s1 \<and> ascii_digit s2)"
| "clean_timestamp _ = False"

text \<open>
  Concrete inputs: a state in which nothing has happened yet, the same state with an
  older file at the output path, two readings of the clock, and a store of three rows of
  the key \<open>800000001\<close>, with the display ids 3, 1, 2 and the query types 301, 100, 999.
\<close>

definition empty_world :: world where
  "empty_world = \<lparr>fs = Map.empty, stdout = [], conn = Unopened, fh = Unopened\<rparr>"

definition example_path :: pystr where
  "example_path = ascii ''out.json''"

definition old_world :: world where
  "old_world = empty_world\<lparr>fs := [example_path \<mapsto> Text (ascii ''old'')]\<rparr>"

definition clock_a :: clock where
  "clock_a = \<lparr>epoch_seconds = 1731753195, formatted = ascii ''2024-11-16 10:33:15''\<rparr>"

definition clock_b :: clock where
  "clock_b = \<lparr>epoch_seconds = 1731753200, formatted = ascii ''2024-11-16 10:33:20''\<rparr>"

definition example_row :: "int \<Rightarrow> int \<Rightarrow> row" where
  "example_row i q =
     \<lparr>InnerId = ascii ''a'', ArchiveId = ascii ''800000001'', GachaType = q, Id' = i,
      ItemId = 12000, QueryType = q, Time = ascii ''2024-11-16 10:33:15+08:00''\<rparr>"

definition example_store :: "row list" where
  "example_store = [example_row 3 301, example_row 1 100, example_row 2 999]"

section \<open>Properties of the timestamp normaliser\<close>

lemma set_re_sub_offset: "set (re_sub_offset s) \<subseteq> set s"
proof (induction s rule: re_sub_offset.induct)
  case 1
  then show ?case by simp
next
  case (2 c cs)
  show ?case
  proof (cases "utc_offset (take 6 (c # cs)) \<and> at_end (drop 6 (c # cs))")
    case True
    then have "set (re_sub_offset (c # cs)) \<subseteq> set (drop 6 (c # cs))"
      using 2(1) by simp
    also have "\<dots> \<subseteq> set (c # cs)" by (rule set_drop_subset)
    finally show ?thesis .
  next
    case False
    then show ?thesis using 2(2) by auto
  qed
qed

lemma set_strip: "set (strip s) \<subseteq> set s"
proof -
  have "set (strip s) \<subseteq> set (dropWhile isspace s)"
    unfolding strip_def using set_dropWhileD by fastforce
  also have "\<dots> \<subseteq> set s" using set_dropWhileD by fastforce
  finally show ?thesis .
qed

text \<open>
  C5, as amended: for every input string, the result of \<open>parse_timestamp\<close> contains
  no line feed (U+000A).
\<close>

theorem parse_timestamp_no_line_feed: "10 \<notin> set (parse_timestamp s)"
proof -
  have "set (parse_timestamp s) \<subseteq> set (filter (\<lambda>c. c \<noteq> 10) s)"
    unfolding parse_timestamp_def Let_def
    using set_strip set_re_sub_offset by (meson subset_trans)
  then show ?thesis by auto
qed

text \<open>
  C5, as stated, fails: a carriage return (U+000D) inside the string is kept. The input
  is \<open>"2024-11-16\r10:33:15"\<close>.
\<close>

theorem parse_timestamp_keeps_carriage_return:
  "13 \<in> set (parse_timestamp (ascii ''2024-11-16'' @ [13] @ ascii ''10:33:15''))"
  by (simp add: parse_timestamp_def ascii_def utc_offset_def at_end_def strip_def
      isspace_def)

text \<open>An ASCII digit is no line feed, no sign and no white space.\<close>

lemma ascii_digit_facts:
  "ascii_digit c \<Longrightarrow> c \<noteq> 10 \<and> c \<noteq> 43 \<and> c \<noteq> 45 \<and> \<not> isspace c"
  by (auto simp add: ascii_digit_def isspace_def)

lemma parse_timestamp_clean: "clean_timestamp s \<Longrightarrow> parse_timestamp s = s"
proof (induction s rule: clean_timestamp.induct)
  case (1 y1 y2 y3 y4 h1 m1 m2 h2 d1 d2 sp hh1 hh2 c1 mi1 mi2 c2 s1 s2)
  then show ?case
    by (simp add: parse_timestamp_def utc_offset_def at_end_def strip_def ascii_digit_facts)
qed simp_all

text \<open>
  C4: \<open>parse_timestamp\<close> maps \<open>"2024-11-16 10:33:15\n+08:00"\<close> and
  \<open>"2024-11-16 10:33:15+00:00"\<close> to \<open>"2024-11-16 10:33:15"\<close>, and maps
  \<open>"2024-11-16 10:33:15"\<close>, like every string of the form \<open>YYYY-MM-DD HH:MM:SS\<close>, to
  itself.
\<close>

theorem parse_timestamp_examples:
  "parse_timestamp (ascii ''2024-11-16 10:33:15'' @ [10] @ ascii ''+08:00'')
     = ascii ''2024-11-16 10:33:15''
   \<and> parse_timestamp (ascii ''2024-11-16 10:33:15+00:00'') = ascii ''2024-11-16 10:33:15''
   \<and> parse_timestamp (ascii ''2024-11-16 10:33:15'') = ascii ''2024-11-16 10:33:15''
   \<and> (clean_timestamp s \<longrightarrow> parse_timestamp s = s)"
  using parse_timestamp_clean [of s]
  by (simp add: parse_timestamp_def ascii_def utc_offset_def at_end_def strip_def isspace_def
      isdecimal_def decimal_blocks_def)

text \<open>C4 at the clean input \<open>"2025-01-02 03:04:05"\<close>.\<close>

theorem parse_timestamp_examples_witness:
  "clean_timestamp (ascii ''2025-01-02 03:04:05'')
   \<and> parse_timestamp (ascii ''2025-01-02 03:04:05'') = ascii ''2025-01-02 03:04:05''"
proof -
  have h: "clean_timestamp (ascii ''2025-01-02 03:04:05'')"
    by (simp add: ascii_def ascii_digit_def)
  show ?thesis
    using h parse_timestamp_examples [of "ascii ''2025-01-02 03:04:05''"] by simp
qed

section \<open>Properties of the pool types\<close>

text \<open>
  C7: the lookup in \<open>GACHA_TYPE_MAP\<close> returns a pair of codes for exactly the six
  query types 100, 200, 301, 302, 400 and 500, the pair the table gives, and \<open>None\<close>
  for every other integer.
\<close>

theorem GACHA_TYPE_MAP_six_codes:
  "(GACHA_TYPE_MAP q \<noteq> None) = (q \<in> {100, 200, 301, 302, 400, 500})
   \<and> (GACHA_TYPE_MAP q = None) = (q \<notin> {100, 200, 301, 302, 400, 500})
   \<and> GACHA_TYPE_MAP 100 = Some (ascii ''100'', ascii ''100'')
   \<and> GACHA_TYPE_MAP 200 = Some (ascii ''200'', ascii ''200'')
   \<and> GACHA_TYPE_MAP 301 = Some (ascii ''301'', ascii ''301'')
   \<and> GACHA_TYPE_MAP 302 = Some (ascii ''302'', ascii ''302'')
   \<and> GACHA_TYPE_MAP 400 = Some (ascii ''301'', ascii ''400'')
   \<and> GACHA_TYPE_MAP 500 = Some (ascii ''500'', ascii ''500'')"
  by (simp add: GACHA_TYPE_MAP_def)

section \<open>Properties of the item classification\<close>

text \<open>
  C1, as amended: for every item id the category is the character category exactly when
  the id lies in [10000, 19999] and the weapon category otherwise, and an id outside
  [10000, 19999] has rank \<open>"3"\<close>; in particular the ids 12000 and 15500 are both of the
  character category.
\<close>

theorem get_item_info_category:
  "item_type (get_item_info i) = (if 10000 \<le> i \<and> i \<le> 19999 then CHARACTER else WEAPON)
   \<and> (i < 10000 \<or> 19999 < i \<longrightarrow> rank_type (get_item_info i) = ascii ''3'')
   \<and> item_type (get_item_info 12000) = CHARACTER
   \<and> item_type (get_item_info 15500) = CHARACTER"
  by (simp add: get_item_info_def get_rank_type_def Let_def)

text \<open>C1, as amended, at the id 9000, which lies outside [10000, 19999].\<close>

theorem get_item_info_category_witness:
  "(9000 :: int) < 10000
   \<and> item_type (get_item_info 9000) = WEAPON \<and> rank_type (get_item_info 9000) = ascii ''3''"
  using get_item_info_category [of 9000] by simp

text \<open>
  C1, as stated, fails: the id 12000 has rank \<open>"5"\<close>, not \<open>"4"\<close>, and the id 15500 is
  of the character category with rank \<open>"5"\<close>, not a weapon of rank \<open>"3"\<close>.
\<close>

theorem get_item_info_12000_15500:
  "rank_type (get_item_info 12000) = ascii ''5''
   \<and> rank_type (get_item_info 12000) \<noteq> ascii ''4''
   \<and> item_type (get_item_info 15500) = CHARACTER
   \<and> item_type (get_item_info 15500) \<noteq> WEAPON
   \<and> rank_type (get_item_info 15500) = ascii ''5''
   \<and> rank_type (get_item_info 15500) \<noteq> ascii ''3''"
  by (simp add: get_item_info_def get_rank_type_def Let_def ascii_def CHARACTER_def WEAPON_def)

section \<open>Properties of the loop\<close>

text \<open>
  The loop appends one record for every row whose query type is in the dictionary, in the
  order of the rows, and prints one warning for every other row.
\<close>

lemma convert_rows_eq:
  "convert_rows rows acc out =
     (acc @ map (\<lambda>r. make_record (the (GACHA_TYPE_MAP (QueryType r))) r)
              (filter (\<lambda>r. GACHA_TYPE_MAP (QueryType r) \<noteq> None) rows),
      out @ map (\<lambda>r. Warning_unknown_type (QueryType r) (Id' r))
              (filter (\<lambda>r. GACHA_TYPE_MAP (QueryType r) = None) rows))"
  by (induction rows arbitrary: acc out) (auto split: option.splits)

text \<open>
  C9: for a row of query type 400 the loop emits a record with \<open>uigf_gacha_type\<close>
  \<open>"301"\<close> and \<open>gacha_type\<close> \<open>"400"\<close>, which differ; for a row of query type 100,
  200, 301, 302 or 500 both fields are the decimal string of the query type.
\<close>

theorem convert_rows_type_codes:
  "(QueryType r = 400 \<longrightarrow>
      (\<exists>rec. convert_rows [r] gacha_list out = (gacha_list @ [rec], out)
         \<and> uigf_gacha_type rec = ascii ''301'' \<and> gacha_type rec = ascii ''400''
         \<and> uigf_gacha_type rec \<noteq> gacha_type rec))
   \<and> (QueryType r \<in> {100, 200, 301, 302, 500} \<longrightarrow>
      (\<exists>rec. convert_rows [r] gacha_list out = (gacha_list @ [rec], out)
         \<and> uigf_gacha_type rec = str_int (QueryType r)
         \<and> gacha_type rec = str_int (QueryType r)))"
  by (auto simp add: GACHA_TYPE_MAP_def make_record_def Let_def ascii_def str_int_def
      digits_of.simps)

text \<open>C9 at a row of query type 400 and at a row of query type 302.\<close>

theorem convert_rows_type_codes_witness:
  "QueryType (example_row 7 400) = 400
   \<and> (\<exists>rec. convert_rows [example_row 7 400] [] [] = ([rec], [])
         \<and> uigf_gacha_type rec = ascii ''301'' \<and> gacha_type rec = ascii ''400'')
   \<and> QueryType (example_row 8 302) \<in> {100, 200, 301, 302, 500}
   \<and> (\<exists>rec. convert_rows [example_row 8 302] [] [] = ([rec], [])
         \<and> uigf_gacha_type rec = ascii ''302'' \<and> gacha_type rec = ascii ''302'')"
proof -
  have h400: "QueryType (example_row 7 400) = 400"
    and h302: "QueryType (example_row 8 302) \<in> {100, 200, 301, 302, 500}"
    by (simp_all add: example_row_def)
  have s302: "str_int 302 = ascii ''302''"
    by (simp add: str_int_def digits_of.simps ascii_def)
  from convert_rows_type_codes [of "example_row 7 400" "[]" "[]", THEN conjunct1, rule_format,
      OF h400]
  have a: "\<exists>rec. convert_rows [example_row 7 400] [] [] = ([rec], [])
         \<and> uigf_gacha_type rec = ascii ''301'' \<and> gacha_type rec = ascii ''400''"
    by auto
  from convert_rows_type_codes [of "example_row 8 302" "[]" "[]", THEN conjunct2, rule_format,
      OF h302]
  have b: "\<exists>rec. convert_rows [example_row 8 302] [] [] = ([rec], [])
         \<and> uigf_gacha_type rec = ascii ''302'' \<and> gacha_type rec = ascii ''302''"
    using s302 by (auto simp add: example_row_def)
  show ?thesis
    using h400 h302 a b by blast
qed

section \<open>The paths of the export\<close>

text \<open>What \<open>export_gacha_data\<close> does on each of its paths.\<close>

lemma export_raises_early:
  "export_gacha_data Cannot_open fault clk p u w = (Raised OperationalError, w)"
  "export_gacha_data Query_fails fault clk p u w = (Raised OperationalError, w\<lparr>conn := Opened\<rparr>)"
  by (simp_all add: export_gacha_data_def)

lemma export_no_key:
  assumes "uid_arg = None" and "fetch_first_archive tbl = None"
  shows "export_gacha_data (Table tbl) fault clk p uid_arg w =
     (Returned None, w\<lparr>stdout := stdout w @ [Error_no_records], conn := Released\<rparr>)"
  using assms by (simp add: export_gacha_data_def)

lemma export_no_store:
  "export_gacha_data (Table []) fault clk p None w =
     (Returned None, w\<lparr>stdout := stdout w @ [Error_no_records], conn := Released\<rparr>)"
  by (simp add: export_gacha_data_def fetch_first_archive_def)

lemma export_no_rows_resolved:
  assumes "fetch_rows tbl k = []"
    and "uid_arg = Some k \<or> (uid_arg = None \<and> fetch_first_archive tbl = Some k)"
  shows "export_gacha_data (Table tbl) fault clk p uid_arg w =
     (Returned None, w\<lparr>conn := Released, stdout := stdout w @ [Error_no_records_for k]\<rparr>)"
  using assms by (auto simp add: export_gacha_data_def)

text \<open>A key that was taken from the store has rows.\<close>

lemma resolved_key_has_rows:
  assumes "fetch_first_archive tbl = Some k"
  shows "fetch_rows tbl k \<noteq> []"
proof -
  from assms obtain r rest where "tbl = r # rest" and "ArchiveId r = k"
    by (cases tbl) (auto simp add: fetch_first_archive_def)
  then have "r \<in> set (filter (\<lambda>r. ArchiveId r = k) tbl)"
    by simp
  then have "r \<in> set (fetch_rows tbl k)"
    unfolding fetch_rows_def by (simp only: set_sort)
  then show ?thesis
    by auto
qed

lemma export_success:
  fixes tbl k clk p w
  defines "rows \<equiv> fetch_rows tbl k"
  defines "doc \<equiv>
        \<lparr>info = \<lparr>uid = k, lang = ascii ''zh-cn'',
                  export_timestamp = epoch_seconds clk,
                  export_time = formatted clk,
                  export_app = ascii ''HutaoSave Exporter'',
                  export_app_version = ascii ''1.0.0'',
                  uigf_version = ascii ''v3.0'',
                  region_time_zone = get_timezone_from_uid k\<rparr>,
         list = map (\<lambda>r. make_record (the (GACHA_TYPE_MAP (QueryType r))) r)
                  (filter (\<lambda>r. GACHA_TYPE_MAP (QueryType r) \<noteq> None) rows)\<rparr>"
  assumes "fetch_rows tbl k \<noteq> []"
    and "uid_arg = Some k \<or> (uid_arg = None \<and> fetch_first_archive tbl = Some k)"
  shows "export_gacha_data (Table tbl) No_fault clk p uid_arg w =
      (Returned (Some doc),
       w\<lparr>conn := Released,
         stdout := stdout w @ [Exporting k (length rows)]
           @ map (\<lambda>r. Warning_unknown_type (QueryType r) (Id' r))
               (filter (\<lambda>r. GACHA_TYPE_MAP (QueryType r) = None) rows)
           @ [Export_done, Summary_uid k, Summary_count (length (list doc)),
              Summary_time_zone (get_timezone_from_uid k), Summary_path p],
         fs := (fs w)(p \<mapsto> Json doc),
         fh := Released\<rparr>)"
  using assms(3,4) unfolding rows_def doc_def
  by (auto simp add: export_gacha_data_def convert_rows_eq Let_def)

lemma export_open_fails:
  assumes "fetch_rows tbl k \<noteq> []"
    and "uid_arg = Some k \<or> (uid_arg = None \<and> fetch_first_archive tbl = Some k)"
  shows "export_gacha_data (Table tbl) Open_fails clk p uid_arg w =
      (Raised OSError,
       w\<lparr>conn := Released,
         stdout := stdout w @ [Exporting k (length (fetch_rows tbl k))]
           @ map (\<lambda>r. Warning_unknown_type (QueryType r) (Id' r))
               (filter (\<lambda>r. GACHA_TYPE_MAP (QueryType r) = None) (fetch_rows tbl k))\<rparr>)"
  using assms
  by (auto simp add: export_gacha_data_def convert_rows_eq Let_def)

lemma export_write_fails:
  assumes "fetch_rows tbl k \<noteq> []"
    and "uid_arg = Some k \<or> (uid_arg = None \<and> fetch_first_archive tbl = Some k)"
  shows "export_gacha_data (Table tbl) Write_fails clk p uid_arg w =
      (Raised OSError,
       w\<lparr>conn := Released,
         stdout := stdout w @ [Exporting k (length (fetch_rows tbl k))]
           @ map (\<lambda>r. Warning_unknown_type (QueryType r) (Id' r))
               (filter (\<lambda>r. GACHA_TYPE_MAP (QueryType r) = None) (fetch_rows tbl k)),
         fs := (fs w)(p \<mapsto> Broken_off),
         fh := Released\<rparr>)"
  using assms
  by (auto simp add: export_gacha_data_def convert_rows_eq Let_def)

lemma resolved_cases:
  obtains "uid_arg = None" "fetch_first_archive tbl = None"
  | k where "uid_arg = Some k \<or> (uid_arg = None \<and> fetch_first_archive tbl = Some k)"
  by (cases uid_arg; cases "fetch_first_archive tbl") auto

lemma export_file_handle:
  assumes "fh w \<noteq> Opened"
  shows "fh (snd (export_gacha_data db fault clk p u w)) \<noteq> Opened"
proof (cases db)
  case (Table tbl)
  show ?thesis
  proof (cases u tbl rule: resolved_cases)
    case 1
    then show ?thesis using assms by (simp add: Table export_no_key)
  next
    case (2 k)
    show ?thesis
    proof (cases "fetch_rows tbl k = []")
      case True
      then show ?thesis using assms by (simp add: Table export_no_rows_resolved [OF True 2])
    next
      case False
      then show ?thesis using assms
        by (cases fault)
          (simp_all add: Table export_success [OF False 2] export_open_fails [OF False 2]
            export_write_fails [OF False 2])
    qed
  qed
qed (simp_all add: export_raises_early assms)

lemma export_conn_returned:
  assumes "fst (export_gacha_data db fault clk p u w) = Returned r"
  shows "conn (snd (export_gacha_data db fault clk p u w)) = Released"
proof (cases db)
  case (Table tbl)
  show ?thesis
  proof (cases u tbl rule: resolved_cases)
    case 1
    then show ?thesis by (simp add: Table export_no_key)
  next
    case (2 k)
    show ?thesis
    proof (cases "fetch_rows tbl k = []")
      case True
      then show ?thesis by (simp add: Table export_no_rows_resolved [OF True 2])
    next
      case False
      then show ?thesis
        by (cases fault)
          (simp_all add: Table export_success [OF False 2] export_open_fails [OF False 2]
            export_write_fails [OF False 2])
    qed
  qed
qed (use assms in \<open>simp_all add: export_raises_early\<close>)

lemma main_exit: "fst (main db fault clk w) = 0"
  by (simp add: main_def split: prod.splits outcome.splits)

lemma main_no_store:
  "main (Table []) fault clk w =
     (0, w\<lparr>stdout := stdout w @ [Error_no_records], conn := Released\<rparr>)"
  by (simp add: main_def export_no_store)

lemma fetch_three:
  assumes "ArchiveId r1 = k" "ArchiveId r2 = k" "ArchiveId r3 = k"
    and "Id' r1 = 1" "Id' r2 = 2" "Id' r3 = 3"
    and "length tbl = 3" "set tbl = {r1, r2, r3}"
  shows "fetch_rows tbl k = [r1, r2, r3]"
proof -
  from \<open>length tbl = 3\<close> obtain a b c where tbl: "tbl = [a, b, c]"
    by (auto simp add: length_Suc_conv numeral_3_eq_3)
  have ne: "r1 \<noteq> r2" "r1 \<noteq> r3" "r2 \<noteq> r3"
    using assms(4-6) by auto
  have mem: "a \<in> {r1, r2, r3}" "b \<in> {r1, r2, r3}" "c \<in> {r1, r2, r3}"
    using assms(8) tbl by auto
  have cov: "r1 \<in> {a, b, c}" "r2 \<in> {a, b, c}" "r3 \<in> {a, b, c}"
    using assms(8) tbl by auto
  show ?thesis
    using mem cov ne assms(1-6) unfolding tbl fetch_rows_def
    by auto
qed

section \<open>Properties of the export\<close>

text \<open>
  C3: when the chosen identity key has rows and the output can be written, the export
  returns and writes a document whose list holds exactly one record for every row of the
  key whose query type is in the dictionary, in ascending order of the display record id,
  and every other row of the key is skipped with a warning that names its query type and
  its display id. In particular, for a store of three rows of the key \<open>800000001\<close> with
  the display ids 1, 2, 3 and the query types 100, 999, 301, in any order, the list has
  exactly the two entries of the ids 1 and 3, in this order, and the time zone of the
  header is 8.
\<close>

theorem export_list_content:
  "(fetch_rows tbl k \<noteq> []
      \<and> (uid_arg = Some k \<or> (uid_arg = None \<and> fetch_first_archive tbl = Some k)) \<longrightarrow>
     (\<exists>doc. fst (export_gacha_data (Table tbl) No_fault clk p uid_arg w) = Returned (Some doc)
        \<and> fs (snd (export_gacha_data (Table tbl) No_fault clk p uid_arg w)) p = Some (Json doc)
        \<and> list doc =
            map (\<lambda>r. make_record (the (GACHA_TYPE_MAP (QueryType r))) r)
              (filter (\<lambda>r. GACHA_TYPE_MAP (QueryType r) \<noteq> None)
                 (sort_key Id' (filter (\<lambda>r. ArchiveId r = k) tbl)))
        \<and> length (list doc) =
            length (filter (\<lambda>r. ArchiveId r = k \<and> GACHA_TYPE_MAP (QueryType r) \<noteq> None) tbl)
        \<and> map id' (list doc) =
            map (\<lambda>r. str_int (Id' r))
              (filter (\<lambda>r. GACHA_TYPE_MAP (QueryType r) \<noteq> None) (fetch_rows tbl k))
        \<and> sorted (map Id' (filter (\<lambda>r. GACHA_TYPE_MAP (QueryType r) \<noteq> None) (fetch_rows tbl k)))
        \<and> stdout (snd (export_gacha_data (Table tbl) No_fault clk p uid_arg w)) =
            stdout w @ [Exporting k (length (fetch_rows tbl k))]
            @ map (\<lambda>r. Warning_unknown_type (QueryType r) (Id' r))
                (filter (\<lambda>r. GACHA_TYPE_MAP (QueryType r) = None) (fetch_rows tbl k))
            @ [Export_done, Summary_uid k, Summary_count (length (list doc)),
               Summary_time_zone (get_timezone_from_uid k), Summary_path p]))
   \<and> (ArchiveId r1 = ascii ''800000001'' \<and> ArchiveId r2 = ascii ''800000001''
      \<and> ArchiveId r3 = ascii ''800000001''
      \<and> QueryType r1 = 100 \<and> QueryType r2 = 999 \<and> QueryType r3 = 301
      \<and> Id' r1 = 1 \<and> Id' r2 = 2 \<and> Id' r3 = 3
      \<and> length tbl3 = 3 \<and> set tbl3 = {r1, r2, r3}
      \<and> (uid3 = None \<or> uid3 = Some (ascii ''800000001'')) \<longrightarrow>
     (\<exists>doc. fst (export_gacha_data (Table tbl3) No_fault clk p uid3 w) = Returned (Some doc)
        \<and> list doc = [make_record (ascii ''100'', ascii ''100'') r1,
                       make_record (ascii ''301'', ascii ''301'') r3]
        \<and> length (list doc) = 2
        \<and> map id' (list doc) = [ascii ''1'', ascii ''3'']
        \<and> region_time_zone (info doc) = 8
        \<and> Warning_unknown_type 999 2
             \<in> set (stdout (snd (export_gacha_data (Table tbl3) No_fault clk p uid3 w)))))"
proof (intro conjI impI)
  assume h: "fetch_rows tbl k \<noteq> []
      \<and> (uid_arg = Some k \<or> (uid_arg = None \<and> fetch_first_archive tbl = Some k))"
  have len: "length (filter (\<lambda>r. GACHA_TYPE_MAP (QueryType r) \<noteq> None) (fetch_rows tbl k)) =
      length (filter (\<lambda>r. ArchiveId r = k \<and> GACHA_TYPE_MAP (QueryType r) \<noteq> None) tbl)"
    by (simp add: fetch_rows_def filter_sort conj_commute)
  have srt: "sorted (map Id' (filter (\<lambda>r. GACHA_TYPE_MAP (QueryType r) \<noteq> None) (fetch_rows tbl k)))"
    by (simp add: fetch_rows_def sorted_filter)
  show "\<exists>doc. fst (export_gacha_data (Table tbl) No_fault clk p uid_arg w) = Returned (Some doc)
        \<and> fs (snd (export_gacha_data (Table tbl) No_fault clk p uid_arg w)) p = Some (Json doc)
        \<and> list doc =
            map (\<lambda>r. make_record (the (GACHA_TYPE_MAP (QueryType r))) r)
              (filter (\<lambda>r. GACHA_TYPE_MAP (QueryType r) \<noteq> None)
                 (sort_key Id' (filter (\<lambda>r. ArchiveId r = k) tbl)))
        \<and> length (list doc) =
            length (filter (\<lambda>r. ArchiveId r = k \<and> GACHA_TYPE_MAP (QueryType r) \<noteq> None) tbl)
        \<and> map id' (list doc) =
            map (\<lambda>r. str_int (Id' r))
              (filter (\<lambda>r. GACHA_TYPE_MAP (QueryType r) \<noteq> None) (fetch_rows tbl k))
        \<and> sorted (map Id' (filter (\<lambda>r. GACHA_TYPE_MAP (QueryType r) \<noteq> None) (fetch_rows tbl k)))
        \<and> stdout (snd (export_gacha_data (Table tbl) No_fault clk p uid_arg w)) =
            stdout w @ [Exporting k (length (fetch_rows tbl k))]
            @ map (\<lambda>r. Warning_unknown_type (QueryType r) (Id' r))
                (filter (\<lambda>r. GACHA_TYPE_MAP (QueryType r) = None) (fetch_rows tbl k))
            @ [Export_done, Summary_uid k, Summary_count (length (list doc)),
               Summary_time_zone (get_timezone_from_uid k), Summary_path p]"
  proof -
    from h have h1: "fetch_rows tbl k \<noteq> []"
      and h2: "uid_arg = Some k \<or> (uid_arg = None \<and> fetch_first_archive tbl = Some k)"
      by auto
    note ex = export_success [OF h1 h2, of clk p w]
    show ?thesis
      using len srt
      by (simp add: ex make_record_def Let_def fetch_rows_def [symmetric] o_def)
  qed
next
  assume h: "ArchiveId r1 = ascii ''800000001'' \<and> ArchiveId r2 = ascii ''800000001''
      \<and> ArchiveId r3 = ascii ''800000001''
      \<and> QueryType r1 = 100 \<and> QueryType r2 = 999 \<and> QueryType r3 = 301
      \<and> Id' r1 = 1 \<and> Id' r2 = 2 \<and> Id' r3 = 3
      \<and> length tbl3 = 3 \<and> set tbl3 = {r1, r2, r3}
      \<and> (uid3 = None \<or> uid3 = Some (ascii ''800000001''))"
  then have rows: "fetch_rows tbl3 (ascii ''800000001'') = [r1, r2, r3]"
    by (intro fetch_three) simp_all
  have "tbl3 \<noteq> []" using h by auto
  then have first: "fetch_first_archive tbl3 = Some (ascii ''800000001'')"
    using h by (cases tbl3) (auto simp add: fetch_first_archive_def)
  have key: "uid3 = Some (ascii ''800000001'')
      \<or> (uid3 = None \<and> fetch_first_archive tbl3 = Some (ascii ''800000001''))"
    using h first by auto
  have tz: "get_timezone_from_uid (ascii ''800000001'') = 8"
    by (simp add: get_timezone_from_uid_def startswith_def ascii_def)
  have q: "GACHA_TYPE_MAP 100 = Some (ascii ''100'', ascii ''100'')"
    "GACHA_TYPE_MAP 301 = Some (ascii ''301'', ascii ''301'')" "GACHA_TYPE_MAP 999 = None"
    by (simp_all add: GACHA_TYPE_MAP_def)
  have ids: "id' (make_record (ascii ''100'', ascii ''100'') r1) = ascii ''1''"
    "id' (make_record (ascii ''301'', ascii ''301'') r3) = ascii ''3''"
    using h by (simp_all add: make_record_def Let_def str_int_def digits_of.simps ascii_def)
  show "\<exists>doc. fst (export_gacha_data (Table tbl3) No_fault clk p uid3 w) = Returned (Some doc)
        \<and> list doc = [make_record (ascii ''100'', ascii ''100'') r1,
                       make_record (ascii ''301'', ascii ''301'') r3]
        \<and> length (list doc) = 2
        \<and> map id' (list doc) = [ascii ''1'', ascii ''3'']
        \<and> region_time_zone (info doc) = 8
        \<and> Warning_unknown_type 999 2
             \<in> set (stdout (snd (export_gacha_data (Table tbl3) No_fault clk p uid3 w)))"
  proof -
    have ne: "fetch_rows tbl3 (ascii ''800000001'') \<noteq> []"
      by (simp add: rows)
    note ex = export_success [OF ne key, of clk p w]
    show ?thesis
      using h by (simp add: ex rows q tz ids)
  qed
qed

text \<open>C3 at the example store, with no identity key supplied.\<close>

theorem export_list_content_witness:
  "(\<exists>doc. fst (export_gacha_data (Table example_store) No_fault clock_a example_path None
              empty_world) = Returned (Some doc)
      \<and> fs (snd (export_gacha_data (Table example_store) No_fault clock_a example_path None
              empty_world)) example_path = Some (Json doc))
   \<and> (\<exists>doc. fst (export_gacha_data (Table example_store) No_fault clock_a example_path None
              empty_world) = Returned (Some doc)
      \<and> list doc = [make_record (ascii ''100'', ascii ''100'') (example_row 1 100),
                     make_record (ascii ''301'', ascii ''301'') (example_row 3 301)]
      \<and> length (list doc) = 2
      \<and> map id' (list doc) = [ascii ''1'', ascii ''3'']
      \<and> region_time_zone (info doc) = 8
      \<and> Warning_unknown_type 999 2
           \<in> set (stdout (snd (export_gacha_data (Table example_store) No_fault clock_a
                 example_path None empty_world))))"
proof -
  note inst = export_list_content [where tbl = example_store and k = "ascii ''800000001''"
      and uid_arg = None and clk = clock_a and p = example_path and w = empty_world
      and ?r1.0 = "example_row 1 100" and ?r2.0 = "example_row 2 999"
      and ?r3.0 = "example_row 3 301" and ?tbl3.0 = example_store and ?uid3.0 = None]
  have rows: "fetch_rows example_store (ascii ''800000001'') =
      [example_row 1 100, example_row 2 999, example_row 3 301]"
    by (simp add: fetch_rows_def example_store_def example_row_def)
  have first: "fetch_first_archive example_store = Some (ascii ''800000001'')"
    by (simp add: fetch_first_archive_def example_store_def example_row_def)
  have hyp1: "fetch_rows example_store (ascii ''800000001'') \<noteq> []
      \<and> ((None :: pystr option) = Some (ascii ''800000001'')
         \<or> ((None :: pystr option) = None
            \<and> fetch_first_archive example_store = Some (ascii ''800000001'')))"
    by (simp add: rows first)
  have hyp2: "ArchiveId (example_row 1 100) = ascii ''800000001''
      \<and> ArchiveId (example_row 2 999) = ascii ''800000001''
      \<and> ArchiveId (example_row 3 301) = ascii ''800000001''
      \<and> QueryType (example_row 1 100) = 100 \<and> QueryType (example_row 2 999) = 999
      \<and> QueryType (example_row 3 301) = 301
      \<and> Id' (example_row 1 100) = 1 \<and> Id' (example_row 2 999) = 2
      \<and> Id' (example_row 3 301) = 3
      \<and> length example_store = 3
      \<and> set example_store = {example_row 1 100, example_row 2 999, example_row 3 301}
      \<and> ((None :: pystr option) = None \<or> (None :: pystr option) = Some (ascii ''800000001''))"
    by (auto simp add: example_store_def example_row_def)
  have general: "\<exists>doc. fst (export_gacha_data (Table example_store) No_fault clock_a
        example_path None empty_world) = Returned (Some doc)
      \<and> fs (snd (export_gacha_data (Table example_store) No_fault clock_a example_path None
              empty_world)) example_path = Some (Json doc)"
    using inst [THEN conjunct1, rule_format, OF hyp1]
    by (elim exE conjE) (intro exI conjI)
  show ?thesis
    using general inst [THEN conjunct2, rule_format, OF hyp2] by (rule conjI)
qed

text \<open>
  C2, as amended: \<open>export_gacha_data\<close> raises no error when there are no records. For
  a store without any record and no identity key it prints an error line and returns
  \<open>None\<close>; for a supplied identity key without rows it prints an error line that names
  the key and returns \<open>None\<close>. The entry point reports the empty store in this way
  and, whatever the export did, ends with exit status 0.
\<close>

theorem export_no_records_reported:
  "export_gacha_data (Table []) fault clk p None w =
     (Returned None, w\<lparr>stdout := stdout w @ [Error_no_records], conn := Released\<rparr>)
   \<and> (fetch_rows tbl k = []
        \<and> (uid_arg = Some k \<or> (uid_arg = None \<and> fetch_first_archive tbl = Some k)) \<longrightarrow>
        export_gacha_data (Table tbl) fault clk p uid_arg w =
          (Returned None,
           w\<lparr>conn := Released, stdout := stdout w @ [Error_no_records_for k]\<rparr>))
   \<and> main (Table []) fault clk w =
       (0, w\<lparr>stdout := stdout w @ [Error_no_records], conn := Released\<rparr>)
   \<and> fst (main db fault clk w) = 0"
  using export_no_rows_resolved [where tbl = tbl and k = k and uid_arg = uid_arg
      and fault = fault and clk = clk and p = p and w = w]
  by (auto simp add: export_no_store main_exit main_no_store)

text \<open>C2, as amended, at the example store and the key \<open>700000001\<close>, which has no row.\<close>

theorem export_no_records_reported_witness:
  "fetch_rows example_store (ascii ''700000001'') = []
   \<and> export_gacha_data (Table example_store) No_fault clock_a example_path
        (Some (ascii ''700000001'')) empty_world =
       (Returned None,
        empty_world\<lparr>conn := Released,
          stdout := stdout empty_world @ [Error_no_records_for (ascii ''700000001'')]\<rparr>)"
proof -
  have h: "fetch_rows example_store (ascii ''700000001'') = []"
    by (simp add: fetch_rows_def example_store_def example_row_def ascii_def)
  have hyp: "fetch_rows example_store (ascii ''700000001'') = []
      \<and> (Some (ascii ''700000001'') = Some (ascii ''700000001'')
         \<or> (Some (ascii ''700000001'') = None
            \<and> fetch_first_archive example_store = Some (ascii ''700000001'')))"
    using h by simp
  show ?thesis
    using h export_no_records_reported [where tbl = example_store and k = "ascii ''700000001''"
        and uid_arg = "Some (ascii ''700000001'')" and fault = No_fault and clk = clock_a
        and p = example_path and w = empty_world,
        THEN conjunct2, THEN conjunct1, rule_format, OF hyp]
    by simp
qed

text \<open>
  C2, as stated, fails: for the store without any record the export returns \<open>None\<close>
  instead of raising an error, and the entry point ends with exit status 0 after the one
  line it printed.
\<close>

theorem export_empty_store_returns_none:
  "fst (export_gacha_data (Table []) No_fault clock_a output_path None empty_world)
     = Returned None
   \<and> stdout (snd (export_gacha_data (Table []) No_fault clock_a output_path None empty_world))
     = [Error_no_records]
   \<and> fst (main (Table []) No_fault clock_a empty_world) = 0
   \<and> stdout (snd (main (Table []) No_fault clock_a empty_world)) = [Error_no_records]"
  by (simp add: export_gacha_data_def main_def fetch_first_archive_def empty_world_def)

text \<open>
  C10: on the two paths without records (a store without any record, or a supplied or
  resolved identity key without rows) \<open>export_gacha_data\<close> returns \<open>None\<close> without raising, leaves
  every file as it was and does not touch the output file handle.
\<close>

theorem export_no_records_keeps_file:
  "(fst (export_gacha_data (Table []) fault clk p None w) = Returned None
      \<and> fs (snd (export_gacha_data (Table []) fault clk p None w)) = fs w
      \<and> fh (snd (export_gacha_data (Table []) fault clk p None w)) = fh w)
   \<and> (fetch_rows tbl k = []
        \<and> (uid_arg = Some k \<or> (uid_arg = None \<and> fetch_first_archive tbl = Some k)) \<longrightarrow>
        fst (export_gacha_data (Table tbl) fault clk p uid_arg w) = Returned None
      \<and> fs (snd (export_gacha_data (Table tbl) fault clk p uid_arg w)) = fs w
      \<and> fh (snd (export_gacha_data (Table tbl) fault clk p uid_arg w)) = fh w)"
  using export_no_rows_resolved [where tbl = tbl and k = k and uid_arg = uid_arg
      and fault = fault and clk = clk and p = p and w = w]
  by (auto simp add: export_no_store)

text \<open>
  C10 at the example store, the key \<open>700000001\<close> and an older file at the output path:
  the file still holds its old text.
\<close>

theorem export_no_records_keeps_file_witness:
  "fetch_rows example_store (ascii ''700000001'') = []
   \<and> fst (export_gacha_data (Table example_store) No_fault clock_a example_path
        (Some (ascii ''700000001'')) old_world) = Returned None
   \<and> fs (snd (export_gacha_data (Table example_store) No_fault clock_a example_path
        (Some (ascii ''700000001'')) old_world)) example_path = Some (Text (ascii ''old''))
   \<and> fh (snd (export_gacha_data (Table example_store) No_fault clock_a example_path
        (Some (ascii ''700000001'')) old_world)) = Unopened"
proof -
  have h: "fetch_rows example_store (ascii ''700000001'') = []"
    by (simp add: fetch_rows_def example_store_def example_row_def ascii_def)
  have hyp: "fetch_rows example_store (ascii ''700000001'') = []
      \<and> (Some (ascii ''700000001'') = Some (ascii ''700000001'')
         \<or> (Some (ascii ''700000001'') = None
            \<and> fetch_first_archive example_store = Some (ascii ''700000001'')))"
    using h by simp
  show ?thesis
    using h export_no_records_keeps_file [where tbl = example_store
        and k = "ascii ''700000001''" and uid_arg = "Some (ascii ''700000001'')"
        and fault = No_fault and clk = clock_a and p = example_path and w = old_world,
        THEN conjunct2, rule_format, OF hyp]
    by (simp add: old_world_def empty_world_def)
qed

text \<open>
  C6 fails on the code: when a query raises (here for a database in which the queries
  fail, with no identity key), \<open>export_gacha_data\<close> ends by the exception and the store
  connection is still open. The lemmas \<open>export_conn_returned\<close> and
  \<open>export_file_handle\<close> above cover the other paths and the file handle.
\<close>

theorem export_query_failure_keeps_connection:
  "fst (export_gacha_data Query_fails No_fault clock_a output_path None empty_world)
     = Raised OperationalError
   \<and> conn (snd (export_gacha_data Query_fails No_fault clock_a output_path None empty_world))
     = Opened"
  by (simp add: export_gacha_data_def)

text \<open>
  C8: the export is run twice with the same explicit identity key on the same store, the
  second time at another reading of the clock and in the state the first run left. When
  the first run returns a document, the second returns one with the same list and the
  same header except for \<open>export_timestamp\<close> and \<open>export_time\<close>, and each run leaves
  its document in the output file; when the first run returns \<open>None\<close> or raises, the
  second does the same and leaves the output file as the first left it.
\<close>

theorem export_twice_same_list:
  "(case fst (export_gacha_data db fault c1 p (Some k) w) of
      Returned (Some d1) \<Rightarrow>
        (\<exists>d2. fst (export_gacha_data db fault c2 p (Some k)
                    (snd (export_gacha_data db fault c1 p (Some k) w))) = Returned (Some d2)
           \<and> list d2 = list d1
           \<and> info d2 = (info d1)\<lparr>export_timestamp := epoch_seconds c2, export_time := formatted c2\<rparr>
           \<and> fs (snd (export_gacha_data db fault c1 p (Some k) w)) p = Some (Json d1)
           \<and> fs (snd (export_gacha_data db fault c2 p (Some k)
                    (snd (export_gacha_data db fault c1 p (Some k) w)))) p = Some (Json d2))
    | other \<Rightarrow>
        fst (export_gacha_data db fault c2 p (Some k)
               (snd (export_gacha_data db fault c1 p (Some k) w))) = other
        \<and> fs (snd (export_gacha_data db fault c2 p (Some k)
               (snd (export_gacha_data db fault c1 p (Some k) w)))) p
          = fs (snd (export_gacha_data db fault c1 p (Some k) w)) p)"
proof (cases db)
  case (Table tbl)
  have key: "Some k = Some k \<or> (Some k = None \<and> fetch_first_archive tbl = Some k)"
    by simp
  show ?thesis
  proof (cases "fetch_rows tbl k = []")
    case True
    then show ?thesis by (simp add: Table export_no_rows_resolved [OF True key])
  next
    case False
    then show ?thesis
      by (cases fault)
        (simp_all add: Table export_success [OF False key] export_open_fails [OF False key]
          export_write_fails [OF False key])
  qed
qed (simp_all add: export_raises_early)

text \<open>C8 at the example store, the key \<open>800000001\<close> and two readings of the clock.\<close>

theorem export_twice_same_list_witness:
  "\<exists>d1 d2.
     fst (export_gacha_data (Table example_store) No_fault clock_a example_path
            (Some (ascii ''800000001'')) empty_world) = Returned (Some d1)
     \<and> fst (export_gacha_data (Table example_store) No_fault clock_b example_path
            (Some (ascii ''800000001''))
            (snd (export_gacha_data (Table example_store) No_fault clock_a example_path
               (Some (ascii ''800000001'')) empty_world))) = Returned (Some d2)
     \<and> list d2 = list d1
     \<and> map id' (list d1) = [ascii ''1'', ascii ''3'']
     \<and> export_timestamp (info d1) = 1731753195
     \<and> export_timestamp (info d2) = 1731753200
     \<and> uid (info d2) = uid (info d1)"
proof -
  have rows: "fetch_rows example_store (ascii ''800000001'') =
      [example_row 1 100, example_row 2 999, example_row 3 301]"
    by (simp add: fetch_rows_def example_store_def example_row_def)
  then have ne: "fetch_rows example_store (ascii ''800000001'') \<noteq> []"
    by simp
  have key: "Some (ascii ''800000001'') = Some (ascii ''800000001'')
      \<or> (Some (ascii ''800000001'') = None
         \<and> fetch_first_archive example_store = Some (ascii ''800000001''))"
    by simp
  have q: "GACHA_TYPE_MAP 100 \<noteq> None" "GACHA_TYPE_MAP 301 \<noteq> None" "GACHA_TYPE_MAP 999 = None"
    by (simp_all add: GACHA_TYPE_MAP_def)
  have ids: "str_int 1 = ascii ''1''" "str_int 3 = ascii ''3''"
    by (simp_all add: str_int_def digits_of.simps ascii_def)
  obtain d1 where d1:
    "fst (export_gacha_data (Table example_store) No_fault clock_a example_path
            (Some (ascii ''800000001'')) empty_world) = Returned (Some d1)"
    "map id' (list d1) = [ascii ''1'', ascii ''3'']"
    "export_timestamp (info d1) = 1731753195"
    using q
    by (simp add: export_success [OF ne key] rows example_row_def make_record_def Let_def ids
        clock_a_def)
  from export_twice_same_list [where db = "Table example_store" and fault = No_fault
      and ?c1.0 = clock_a and p = example_path and k = "ascii ''800000001''"
      and w = empty_world and ?c2.0 = clock_b]
  obtain d2 where d2:
    "fst (export_gacha_data (Table example_store) No_fault clock_b example_path
            (Some (ascii ''800000001''))
            (snd (export_gacha_data (Table example_store) No_fault clock_a example_path
               (Some (ascii ''800000001'')) empty_world))) = Returned (Some d2)"
    "list d2 = list d1"
    "info d2 = (info d1)\<lparr>export_timestamp := epoch_seconds clock_b,
        export_time := formatted clock_b\<rparr>"
    by (auto simp add: d1(1))
  have ts: "export_timestamp (info d2) = 1731753200" "uid (info d2) = uid (info d1)"
    by (simp_all add: d2(3) clock_b_def)
  show ?thesis
    by (rule exI [of _ d1], rule exI [of _ d2], intro conjI)
      (rule d1 d2(1,2) ts)+
qed

end
